theory Spec2Isabelle
  imports Main "HOL-Library.Word"
begin

unbundle bit_operations_syntax

section \<open>Data model of print_monitor.cpp\<close>

text \<open>
  The C++ types: \<open>DWORD\<close> is an unsigned 32-bit integer, \<open>int\<close> a signed 32-bit integer
  and \<open>short\<close> a signed 16-bit integer. All three are words here; \<open>unat\<close> reads a
  \<open>DWORD\<close>, \<open>sint\<close> reads an \<open>int\<close>. A pointer that may be null is an option.
\<close>

type_synonym DWORD = "32 word"
type_synonym cint = "32 word"
type_synonym cshort = "16 word"

text \<open>\<open>struct PrintJob\<close> (lines 52-63). The strings default to the empty string, the
  two integers to 0.\<close>

record PrintJob =
  printerName :: string
  timestamp :: string
  status :: string
  pages :: cint
  documentSize :: cint
  colorMode :: string
  duplexSetting :: string
  paperSize :: string
  userAccount :: string
  jobId :: string

definition default_PrintJob :: PrintJob where
  "default_PrintJob =
     \<lparr>printerName = [], timestamp = [], status = [], pages = 0, documentSize = 0,
      colorMode = [], duplexSetting = [], paperSize = [], userAccount = [], jobId = []\<rparr>"

section \<open>What the program takes from the Windows headers\<close>

text \<open>
  The flag and code constants come from the platform headers, which are not part of the
  repository, so every function that uses them takes them as a parameter: the job status
  flags of the spooler, and the field flags and codes of \<open>DEVMODE\<close>. The values
  of the Windows SDK are given below as one instance, for evaluation.
\<close>

record job_status_flags =
  JOB_STATUS_PAUSED :: DWORD
  JOB_STATUS_ERROR :: DWORD
  JOB_STATUS_DELETING :: DWORD
  JOB_STATUS_SPOOLING :: DWORD
  JOB_STATUS_PRINTING :: DWORD
  JOB_STATUS_OFFLINE :: DWORD
  JOB_STATUS_PAPEROUT :: DWORD
  JOB_STATUS_DELETED :: DWORD
  JOB_STATUS_BLOCKED_DEVQ :: DWORD
  JOB_STATUS_USER_INTERVENTION :: DWORD

record devmode_codes =
  DM_COLOR :: DWORD
  DM_DUPLEX :: DWORD
  DM_PAPERSIZE :: DWORD
  DMCOLOR_COLOR :: cshort
  DMDUP_SIMPLEX :: cshort
  DMDUP_VERTICAL :: cshort
  DMDUP_HORIZONTAL :: cshort
  DMPAPER_LETTER :: cshort
  DMPAPER_LEGAL :: cshort
  DMPAPER_A4 :: cshort
  DMPAPER_A3 :: cshort
  DMPAPER_A5 :: cshort

definition sdk_job_status_flags :: job_status_flags where
  "sdk_job_status_flags =
     \<lparr>JOB_STATUS_PAUSED = 0x1, JOB_STATUS_ERROR = 0x2, JOB_STATUS_DELETING = 0x4,
      JOB_STATUS_SPOOLING = 0x8, JOB_STATUS_PRINTING = 0x10, JOB_STATUS_OFFLINE = 0x20,
      JOB_STATUS_PAPEROUT = 0x40, JOB_STATUS_DELETED = 0x100,
      JOB_STATUS_BLOCKED_DEVQ = 0x200, JOB_STATUS_USER_INTERVENTION = 0x400\<rparr>"

definition sdk_devmode_codes :: devmode_codes where
  "sdk_devmode_codes =
     \<lparr>DM_COLOR = 0x800, DM_DUPLEX = 0x1000, DM_PAPERSIZE = 0x2, DMCOLOR_COLOR = 2,
      DMDUP_SIMPLEX = 1, DMDUP_VERTICAL = 2, DMDUP_HORIZONTAL = 3,
      DMPAPER_LETTER = 1, DMPAPER_LEGAL = 5, DMPAPER_A4 = 9, DMPAPER_A3 = 8,
      DMPAPER_A5 = 11\<rparr>"

text \<open>The fields of \<open>DEVMODE\<close> that the program reads.\<close>

record DEVMODE =
  dmFields :: DWORD
  dmColor :: cshort
  dmDuplex :: cshort
  dmPaperSize :: cshort

section \<open>Strings\<close>

text \<open>\<open>ansiStringToUtf8\<close> (lines 114-117): the empty string for a null pointer.\<close>

definition ansiStringToUtf8 :: "string option \<Rightarrow> string" where
  "ansiStringToUtf8 ansiStr = (case ansiStr of None \<Rightarrow> [] | Some s \<Rightarrow> s)"

text \<open>\<open>std::to_string\<close> of an unsigned value, and the decimal form of an \<open>int\<close> as
  \<open>operator<<\<close> writes it.\<close>

definition digit_char :: "nat \<Rightarrow> char" where
  "digit_char d = char_of (48 + d)"

function to_string :: "nat \<Rightarrow> string" where
  "to_string n =
     (if n < 10 then [digit_char n] else to_string (n div 10) @ [digit_char (n mod 10)])"
  by pat_completeness auto
termination
  by (relation "measure (\<lambda>n. n)") auto

declare to_string.simps [simp del]


text \<open>The number a decimal string stands for: the inverse of \<open>to_string\<close>.\<close>

definition digit_value :: "string \<Rightarrow> nat" where
  "digit_value s = foldl (\<lambda>acc c. 10 * acc + (of_char c - 48)) 0 s"

section \<open>The decoder of device settings (lines 133-172)\<close>

definition getColorMode :: "devmode_codes \<Rightarrow> DEVMODE option \<Rightarrow> string" where
  "getColorMode K pDevMode =
     (case pDevMode of
        None \<Rightarrow> ''Unknown''
      | Some dm \<Rightarrow>
          if dmFields dm AND DM_COLOR K \<noteq> 0
          then (if dmColor dm = DMCOLOR_COLOR K then ''Color'' else ''Monochrome'')
          else ''Unknown'')"

definition getDuplexSetting :: "devmode_codes \<Rightarrow> DEVMODE option \<Rightarrow> string" where
  "getDuplexSetting K pDevMode =
     (case pDevMode of
        None \<Rightarrow> ''Unknown''
      | Some dm \<Rightarrow>
          if dmFields dm AND DM_DUPLEX K \<noteq> 0
          then (if dmDuplex dm = DMDUP_SIMPLEX K then ''Simplex''
                else if dmDuplex dm = DMDUP_VERTICAL K then ''Duplex Vertical''
                else if dmDuplex dm = DMDUP_HORIZONTAL K then ''Duplex Horizontal''
                else ''Unknown'')
          else ''Unknown'')"

definition getPaperSize :: "devmode_codes \<Rightarrow> DEVMODE option \<Rightarrow> string" where
  "getPaperSize K pDevMode =
     (case pDevMode of
        None \<Rightarrow> ''Unknown''
      | Some dm \<Rightarrow>
          if dmFields dm AND DM_PAPERSIZE K \<noteq> 0
          then (if dmPaperSize dm = DMPAPER_LETTER K then ''Letter''
                else if dmPaperSize dm = DMPAPER_LEGAL K then ''Legal''
                else if dmPaperSize dm = DMPAPER_A4 K then ''A4''
                else if dmPaperSize dm = DMPAPER_A3 K then ''A3''
                else if dmPaperSize dm = DMPAPER_A5 K then ''A5''
                else ''Custom'')
          else ''Unknown'')"

section \<open>Normalising one enumerated job (lines 267-307)\<close>

text \<open>The fields of \<open>JOB_INFO_2A\<close> that the poll loop reads.\<close>

record JOB_INFO_2 =
  JobId :: DWORD
  pUserName :: "string option"
  Status :: DWORD
  TotalPages :: DWORD
  PagesPrinted :: DWORD
  Size :: DWORD
  pDevMode :: "DEVMODE option"

text \<open>The cascade of lines 272-293: the first flag of the chain that the bitmask has
  decides, and \<open>Queued\<close> is the last branch.\<close>

definition map_job_status :: "job_status_flags \<Rightarrow> DWORD \<Rightarrow> string" where
  "map_job_status F st =
     (if st AND JOB_STATUS_PAUSED F \<noteq> 0 then ''Paused''
      else if st AND JOB_STATUS_ERROR F \<noteq> 0 then ''Error''
      else if st AND JOB_STATUS_DELETING F \<noteq> 0 then ''Deleting''
      else if st AND JOB_STATUS_SPOOLING F \<noteq> 0 then ''Spooling''
      else if st AND JOB_STATUS_PRINTING F \<noteq> 0 then ''Printing''
      else if st AND JOB_STATUS_OFFLINE F \<noteq> 0 then ''Offline''
      else if st AND JOB_STATUS_PAPEROUT F \<noteq> 0 then ''Paper Out''
      else if st AND JOB_STATUS_DELETED F \<noteq> 0 then ''Deleted''
      else if st AND JOB_STATUS_BLOCKED_DEVQ F \<noteq> 0 then ''Blocked''
      else if st AND JOB_STATUS_USER_INTERVENTION F \<noteq> 0 then ''User Intervention Required''
      else ''Queued'')"

text \<open>
  The status mapping as the specification words it: an enumeration of statuses, a fixed
  precedence order of (flag, status) pairs, the first pair whose flag the bitmask has
  wins, and \<open>Queued\<close> when none has. \<open>status_text\<close> is the string the program stores for
  each status.
\<close>

datatype JobStatus = Queued | Spooling | Printing | Paused | Error | Deleting | Deleted
  | Offline | PaperOut | Blocked | UserInterventionRequired

fun status_text :: "JobStatus \<Rightarrow> string" where
  "status_text Queued = ''Queued''"
| "status_text Spooling = ''Spooling''"
| "status_text Printing = ''Printing''"
| "status_text Paused = ''Paused''"
| "status_text Error = ''Error''"
| "status_text Deleting = ''Deleting''"
| "status_text Deleted = ''Deleted''"
| "status_text Offline = ''Offline''"
| "status_text PaperOut = ''Paper Out''"
| "status_text Blocked = ''Blocked''"
| "status_text UserInterventionRequired = ''User Intervention Required''"

definition spec_status_precedence :: "job_status_flags \<Rightarrow> (DWORD \<times> JobStatus) list" where
  "spec_status_precedence F =
     [(JOB_STATUS_PAUSED F, Paused), (JOB_STATUS_ERROR F, Error),
      (JOB_STATUS_DELETING F, Deleting), (JOB_STATUS_SPOOLING F, Spooling),
      (JOB_STATUS_PRINTING F, Printing), (JOB_STATUS_OFFLINE F, Offline),
      (JOB_STATUS_PAPEROUT F, PaperOut), (JOB_STATUS_DELETED F, Deleted),
      (JOB_STATUS_BLOCKED_DEVQ F, Blocked),
      (JOB_STATUS_USER_INTERVENTION F, UserInterventionRequired)]"

fun spec_first_match :: "DWORD \<Rightarrow> (DWORD \<times> JobStatus) list \<Rightarrow> JobStatus" where
  "spec_first_match st [] = Queued"
| "spec_first_match st ((flag, s) # rest) =
     (if st AND flag \<noteq> 0 then s else spec_first_match st rest)"

text \<open>
  The record built for job \<open>info\<close> of the printer named \<open>pPrinterName\<close>, \<open>now\<close> being what
  \<open>getCurrentTimestamp\<close> returns. \<open>TotalPages > 0\<close> compares two unsigned values; storing
  a \<open>DWORD\<close> into an \<open>int\<close> keeps its 32 bits. The three decoders are called only under
  \<open>if (pJobInfo[j].pDevMode)\<close>.
\<close>

definition make_job ::
  "job_status_flags \<Rightarrow> devmode_codes \<Rightarrow> string option \<Rightarrow> string \<Rightarrow> JOB_INFO_2 \<Rightarrow> PrintJob" where
  "make_job F K pPrinterName now info =
     (let job = default_PrintJob
            \<lparr>printerName := ansiStringToUtf8 pPrinterName,
             timestamp := now,
             status := map_job_status F (Status info),
             pages := (if TotalPages info > 0 then TotalPages info else PagesPrinted info),
             documentSize := Size info,
             userAccount := ansiStringToUtf8 (pUserName info),
             jobId := to_string (unat (JobId info))\<rparr>
      in case pDevMode info of
           None \<Rightarrow> job
         | Some dm \<Rightarrow>
             job\<lparr>colorMode := getColorMode K (Some dm),
                 duplexSetting := getDuplexSetting K (Some dm),
                 paperSize := getPaperSize K (Some dm)\<rparr>)"

section \<open>The store: the mutex-guarded block of the poll loop (lines 309-329)\<close>

text \<open>The scan \<open>for (const auto& existingJob : printJobs)\<close> with its early \<open>break\<close>;
  \<open>store\<close> is the vector \<open>printJobs\<close>.\<close>

fun job_exists :: "PrintJob list \<Rightarrow> PrintJob \<Rightarrow> bool" where
  "job_exists [] job = False"
| "job_exists (existingJob # rest) job =
     (if jobId existingJob = jobId job \<and> printerName existingJob = printerName job
      then True else job_exists rest job)"

text \<open>
  The whole block: \<open>push_back\<close> when the scan found nothing, then
  \<open>erase(begin, begin + 100)\<close> when the size is above 1000. The erased range is always
  inside the vector there, so it is \<open>drop 100\<close>. Beside the vector the model returns
  which of the two statements ran: whether the record was pushed, and whether the erase
  was executed.
\<close>

definition guarded_block :: "PrintJob list \<Rightarrow> PrintJob \<Rightarrow> PrintJob list \<times> bool \<times> bool" where
  "guarded_block store job =
     (if job_exists store job then (store, False, False)
      else (let pushed = store @ [job]
            in if length pushed > 1000 then (drop 100 pushed, True, True)
               else (pushed, True, False)))"

definition insert_if_novel :: "PrintJob list \<Rightarrow> PrintJob \<Rightarrow> PrintJob list" where
  "insert_if_novel store job = fst (guarded_block store job)"

definition inserted :: "PrintJob list \<Rightarrow> PrintJob \<Rightarrow> bool" where
  "inserted store job = fst (snd (guarded_block store job))"

definition evicted :: "PrintJob list \<Rightarrow> PrintJob \<Rightarrow> bool" where
  "evicted store job = snd (snd (guarded_block store job))"

text \<open>A sequence of calls, oldest first.\<close>

fun insert_all :: "PrintJob list \<Rightarrow> PrintJob list \<Rightarrow> PrintJob list" where
  "insert_all store [] = store"
| "insert_all store (job # jobs) = insert_all (insert_if_novel store job) jobs"

text \<open>How many of the calls of a sequence executed the erase.\<close>

fun eviction_count :: "PrintJob list \<Rightarrow> PrintJob list \<Rightarrow> nat" where
  "eviction_count store [] = 0"
| "eviction_count store (job # jobs) =
     (if evicted store job then 1 else 0) + eviction_count (insert_if_novel store job) jobs"

text \<open>The identity of a record for deduplication.\<close>

definition job_key :: "PrintJob \<Rightarrow> string \<times> string" where
  "job_key job = (printerName job, jobId job)"

text \<open>A record with the given printer name and the identifier of job number \<open>n\<close>, for
  evaluation.\<close>

definition job_of :: "string \<Rightarrow> nat \<Rightarrow> PrintJob" where
  "job_of printer n = default_PrintJob\<lparr>printerName := printer, jobId := to_string n\<rparr>"

section \<open>Effects\<close>

text \<open>
  What a thread does to the outside, in program order: taking and releasing \<open>jobsMutex\<close>
  (the constructor and the destructor of a \<open>lock_guard\<close>), a call of \<open>logMessage\<close> with
  its level and message (it appends to the log file and writes to the console), and the
  operations on the export file.
\<close>

datatype action =
    Lock_jobsMutex
  | Unlock_jobsMutex
  | LogMessage string string
  | FileOpen string
  | FileWrite string
  | FileClose

text \<open>The \<open>logMessage\<close> calls among a sequence of actions.\<close>

fun log_entries :: "action list \<Rightarrow> (string \<times> string) list" where
  "log_entries [] = []"
| "log_entries (LogMessage level message # rest) = (level, message) # log_entries rest"
| "log_entries (a # rest) = log_entries rest"




section \<open>The body of the job loop with its effects (lines 266-336)\<close>

text \<open>
  After the record is built: the guarded block, between taking and releasing the mutex,
  then \<open>if (monitoringActive) logMessage("INFO", ...)\<close>. The flag is written by another
  thread, so its value at that read is the input \<open>active\<close>.
\<close>

definition detected_message :: "PrintJob \<Rightarrow> string" where
  "detected_message job =
     ''Detected print job: '' @ jobId job @ '' on '' @ printerName job
       @ '' - Status: '' @ status job"

definition process_job :: "bool \<Rightarrow> PrintJob \<Rightarrow> PrintJob list \<Rightarrow> PrintJob list \<times> action list" where
  "process_job active job store =
     (insert_if_novel store job,
      [Lock_jobsMutex, Unlock_jobsMutex]
        @ (if active then [LogMessage ''INFO'' (detected_message job)] else []))"

text \<open>
  The loop \<open>for (j = 0; j < numJobs && monitoringActive; ++j)\<close> over the jobs of one
  printer. Each iteration reads the flag twice, at the loop test and before logging, and
  takes a timestamp; the three are inputs beside the enumerated job.
\<close>

record job_observation =
  active_at_loop_test :: bool
  ob_now :: string
  active_at_log :: bool
  ob_info :: JOB_INFO_2

fun poll_printer_jobs ::
  "job_status_flags \<Rightarrow> devmode_codes \<Rightarrow> string option \<Rightarrow> job_observation list
     \<Rightarrow> PrintJob list \<Rightarrow> PrintJob list \<times> action list" where
  "poll_printer_jobs F K pPrinterName [] store = (store, [])"
| "poll_printer_jobs F K pPrinterName (ob # obs) store =
     (if active_at_loop_test ob
      then (let (store1, acts1) =
                  process_job (active_at_log ob) (make_job F K pPrinterName (ob_now ob) (ob_info ob)) store;
                (store2, acts2) = poll_printer_jobs F K pPrinterName obs store1
            in (store2, acts1 @ acts2))
      else (store, []))"

text \<open>A job as the spooler reports it, and its observation in a pass at time \<open>ts\<close> with
  monitoring active, for evaluation.\<close>

definition example_info :: JOB_INFO_2 where
  "example_info =
     \<lparr>JobId = 7, pUserName = Some ''alice'', Status = 0x10, TotalPages = 3,
      PagesPrinted = 1, Size = 2048, pDevMode = None\<rparr>"

definition sighting :: "string \<Rightarrow> job_observation" where
  "sighting ts =
     \<lparr>active_at_loop_test = True, ob_now = ts, active_at_log = True, ob_info = example_info\<rparr>"

section \<open>The export (lines 391-478)\<close>











section \<open>The periodic save (lines 481-495) and its start in \<open>main\<close>\<close>

text \<open>
  Time is counted in ticks, one per \<open>sleep_for(seconds(1))\<close> of the thread; \<open>active t\<close>
  is the value of \<open>monitoringActive\<close> that a read at tick \<open>t\<close> sees. The inner loop
  \<open>for (i = 0; i < 1800 && monitoringActive; ++i)\<close> returns the tick at which it ends.
\<close>

function periodicSave_sleep :: "(nat \<Rightarrow> bool) \<Rightarrow> nat \<Rightarrow> nat \<Rightarrow> nat" where
  "periodicSave_sleep active i t =
     (if i < 1800 \<and> active t then periodicSave_sleep active (Suc i) (Suc t) else t)"
  by pat_completeness auto
termination
  by (relation "measure (\<lambda>(active, i, t). 1800 - i)") auto

declare periodicSave_sleep.simps [simp del]

lemma periodicSave_sleep_ge: "t \<le> periodicSave_sleep active i t"
proof (induction active i t rule: periodicSave_sleep.induct)
  case (1 active i t)
  then show ?case by (subst periodicSave_sleep.simps) (auto simp: Suc_leD)
qed

lemma periodicSave_sleep_gt: "active t \<Longrightarrow> t < periodicSave_sleep active 0 t"
  using periodicSave_sleep_ge [of "Suc t" active "Suc 0"]
  by (subst periodicSave_sleep.simps) simp

text \<open>
  The outer loop \<open>while (monitoringActive)\<close>. It may run forever, so the model returns
  the exports of the iterations that begin before tick \<open>horizon\<close>: the tick of each
  export and its file name, \<open>clock t\<close> being what \<open>getCurrentTimestamp\<close> returns at tick
  \<open>t\<close>.
\<close>

definition auto_save_filename :: "string \<Rightarrow> string" where
  "auto_save_filename ts =
     map (\<lambda>c. if c = CHR '':'' then CHR ''-'' else c)
       (''print_jobs_auto_save_'' @ take 19 ts @ ''.csv'')"

function periodicSave ::
  "(nat \<Rightarrow> bool) \<Rightarrow> (nat \<Rightarrow> string) \<Rightarrow> nat \<Rightarrow> nat \<Rightarrow> (nat \<times> string) list" where
  "periodicSave active clock horizon t =
     (if t < horizon \<and> active t
      then (let t' = periodicSave_sleep active 0 t
            in (if active t' then [(t', auto_save_filename (clock t'))] else [])
               @ periodicSave active clock horizon t')
      else [])"
  by pat_completeness auto
termination
  by (relation "measure (\<lambda>(active, clock, horizon, t). horizon - t)")
     (auto simp: periodicSave_sleep_gt diff_less_mono2)

declare periodicSave.simps [simp del]

text \<open>
  \<open>main\<close>: the global is initialised with \<open>false\<close>, the thread of \<open>periodicSave\<close> is
  started, and then \<open>commandLoop\<close> reads commands. \<open>startMonitoring\<close> sets the flag and
  \<open>stopMonitoring\<close> clears it; neither starts \<open>periodicSave\<close> again. A command typed at
  tick \<open>typed_at\<close> is seen by the reads of later ticks. Within its own tick the command
  and the thread's read race: \<open>command_first t\<close> says that the commands of tick \<open>t\<close> are
  handled before the thread reads the flag in that tick. The thread's first read is at
  tick 0, so a command already waiting at launch is typed at tick 0.
\<close>

datatype command = Start | Stop

fun apply_command :: "bool \<Rightarrow> command \<Rightarrow> bool" where
  "apply_command monitoringActive Start = True"
| "apply_command monitoringActive Stop = False"

definition monitoringActive_at ::
  "(nat \<Rightarrow> bool) \<Rightarrow> (nat \<times> command) list \<Rightarrow> nat \<Rightarrow> bool" where
  "monitoringActive_at command_first cmds t =
     foldl apply_command False
       (map snd (filter (\<lambda>(typed_at, c). typed_at < t \<or> (typed_at = t \<and> command_first t))
          cmds))"

definition main_periodic_exports ::
  "(nat \<Rightarrow> bool) \<Rightarrow> (nat \<times> command) list \<Rightarrow> (nat \<Rightarrow> string) \<Rightarrow> nat
     \<Rightarrow> (nat \<times> string) list" where
  "main_periodic_exports command_first cmds clock horizon =
     periodicSave (monitoringActive_at command_first cmds) clock horizon 0"

section \<open>Properties of the store\<close>

lemma insert_if_novel_eq:
  "insert_if_novel store job =
     (if job_exists store job then store
      else if length store \<ge> 1000 then drop 100 (store @ [job]) else store @ [job])"
  by (simp add: insert_if_novel_def guarded_block_def Let_def)

lemma evicted_eq: "evicted store job \<longleftrightarrow> \<not> job_exists store job \<and> length store \<ge> 1000"
  by (simp add: evicted_def guarded_block_def Let_def)

lemma inserted_eq: "inserted store job \<longleftrightarrow> \<not> job_exists store job"
  by (simp add: inserted_def guarded_block_def Let_def)

lemma job_exists_iff_key: "job_exists store job \<longleftrightarrow> job_key job \<in> set (map job_key store)"
  by (induction store) (auto simp: job_key_def)

lemma distinct_keys_drop: "distinct (map job_key xs) \<Longrightarrow> distinct (map job_key (drop n xs))"
  by (simp add: drop_map [symmetric])

lemma insert_if_novel_distinct:
  assumes "distinct (map job_key store)"
  shows "distinct (map job_key (insert_if_novel store job))"
proof (cases "job_exists store job")
  case True
  with assms show ?thesis by (simp add: insert_if_novel_eq)
next
  case False
  then have "job_key job \<notin> set (map job_key store)"
    by (simp add: job_exists_iff_key)
  with assms have pushed: "distinct (map job_key (store @ [job]))" by simp
  show ?thesis
  proof (cases "length store \<ge> 1000")
    case True
    with False have "insert_if_novel store job = drop 100 (store @ [job])"
      by (simp add: insert_if_novel_eq)
    with pushed show ?thesis by (simp only: distinct_keys_drop)
  next
    case under: False
    with False have "insert_if_novel store job = store @ [job]"
      by (simp add: insert_if_novel_eq)
    with pushed show ?thesis by (simp only:)
  qed
qed

lemma insert_all_distinct:
  "distinct (map job_key store) \<Longrightarrow> distinct (map job_key (insert_all store jobs))"
  by (induction jobs arbitrary: store) (simp_all add: insert_if_novel_distinct)

lemma insert_all_append:
  "insert_all store (xs @ ys) = insert_all (insert_all store xs) ys"
  by (induction xs arbitrary: store) simp_all

lemma insert_if_novel_length:
  "length store \<le> 1000 \<Longrightarrow> length (insert_if_novel store job) \<le> 1000"
  by (auto simp: insert_if_novel_eq)

lemma insert_all_length:
  "length store \<le> 1000 \<Longrightarrow> length (insert_all store jobs) \<le> 1000"
  by (induction jobs arbitrary: store) (simp_all add: insert_if_novel_length)

text \<open>
  C1. The store starts empty. After every call of any sequence of calls of the guarded
  block (every prefix \<open>take n jobs\<close> of the sequence), no two records of the store have the
  same (printer name, job id) pair; and a call whose pair is already in the store leaves
  the store as it was.
\<close>

theorem C1_store_never_holds_duplicates:
  "distinct (map job_key (insert_all [] (take n jobs)))
   \<and> (job_key job \<in> set (map job_key store) \<longrightarrow> insert_if_novel store job = store)"
  by (simp add: insert_all_distinct insert_if_novel_eq job_exists_iff_key del: set_map)

theorem C1_store_never_holds_duplicates_witness:
  "distinct (map job_key (insert_all []
      (take 3 [job_of ''HP'' 7, job_of ''HP'' 7, job_of ''Canon'' 7])))
   \<and> job_key (job_of ''HP'' 7) \<in> set (map job_key [job_of ''Canon'' 7, job_of ''HP'' 7])
   \<and> insert_if_novel [job_of ''Canon'' 7, job_of ''HP'' 7] (job_of ''HP'' 7)
       = [job_of ''Canon'' 7, job_of ''HP'' 7]"
  using C1_store_never_holds_duplicates
    [of 3 "[job_of ''HP'' 7, job_of ''HP'' 7, job_of ''Canon'' 7]" "job_of ''HP'' 7"
        "[job_of ''Canon'' 7, job_of ''HP'' 7]"]
  by (simp add: job_key_def job_of_def)

text \<open>
  C2. From the empty store, the size of the store is at most 1000 after every call of any
  sequence of calls (every prefix of the sequence).
\<close>

theorem C2_store_size_at_most_1000:
  "length (insert_all [] (take n jobs)) \<le> 1000"
  by (simp add: insert_all_length)

subsection \<open>Eviction\<close>

lemma of_char_digit_char: "d < 10 \<Longrightarrow> of_char (digit_char d) - 48 = d"
  by (simp add: digit_char_def)

lemma digit_value_snoc: "digit_value (s @ [c]) = 10 * digit_value s + (of_char c - 48)"
  by (simp add: digit_value_def)

lemma digit_value_to_string: "digit_value (to_string n) = n"
proof (induction n rule: to_string.induct)
  case (1 n)
  show ?case
  proof (cases "n < 10")
    case True
    then show ?thesis
      by (subst to_string.simps) (simp add: digit_value_def of_char_digit_char)
  next
    case False
    with 1 have "digit_value (to_string (n div 10)) = n div 10" by simp
    with False show ?thesis
      by (subst to_string.simps) (simp add: digit_value_snoc of_char_digit_char)
  qed
qed

lemma to_string_inj: "to_string m = to_string n \<Longrightarrow> m = n"
  by (metis digit_value_to_string)

lemma distinct_keys_job_of: "distinct ns \<Longrightarrow> distinct (map job_key (map (job_of p) ns))"
  by (induction ns) (auto simp: job_key_def job_of_def dest: to_string_inj)

lemma eviction_count_append:
  "eviction_count store (xs @ ys) =
     eviction_count store xs + eviction_count (insert_all store xs) ys"
  by (induction xs arbitrary: store) simp_all

text \<open>While the vector stays within 1000 records, new keys are appended and nothing is
  erased.\<close>

lemma insert_all_no_eviction:
  "distinct (map job_key (store @ jobs)) \<Longrightarrow> length store + length jobs \<le> 1000
   \<Longrightarrow> insert_all store jobs = store @ jobs \<and> eviction_count store jobs = 0"
proof (induction jobs arbitrary: store)
  case Nil
  then show ?case by simp
next
  case (Cons job jobs)
  from Cons.prems have fresh: "\<not> job_exists store job"
    by (simp add: job_exists_iff_key)
  with Cons.prems have step: "insert_if_novel store job = store @ [job]"
    and ev: "\<not> evicted store job"
    by (simp_all add: insert_if_novel_eq evicted_eq)
  from Cons.prems have "distinct (map job_key ((store @ [job]) @ jobs))"
    and "length (store @ [job]) + length jobs \<le> 1000" by simp_all
  then have "insert_all (store @ [job]) jobs = (store @ [job]) @ jobs
      \<and> eviction_count (store @ [job]) jobs = 0"
    by (rule Cons.IH)
  with step ev show ?case by simp
qed

text \<open>The push that takes a full vector to 1001 records erases the 100 oldest.\<close>

lemma insert_at_high_water:
  assumes "job_key job \<notin> set (map job_key store)" and "length store = 1000"
  shows "insert_if_novel store job = drop 100 (store @ [job])" and "evicted store job"
  using assms by (simp_all add: insert_if_novel_eq evicted_eq job_exists_iff_key del: set_map)

text \<open>A vector of 900 records that receives between 101 and 200 new keys erases once.\<close>

lemma insert_all_past_high_water:
  assumes len: "length store = 900" "100 < length jobs" "length jobs \<le> 200"
    and dist: "distinct (map job_key (store @ jobs))"
  shows "insert_all store jobs = drop 100 (store @ jobs)" and "eviction_count store jobs = 1"
proof -
  define a where "a = take 100 jobs"
  define j where "j = jobs ! 100"
  define b where "b = drop (Suc 100) jobs"
  have split: "jobs = a @ j # b"
    unfolding a_def j_def b_def using len id_take_nth_drop [of 100 jobs] by simp
  have la: "length a = 100" and lb: "length b \<le> 99"
    unfolding a_def b_def using len by simp_all
  from dist have d1: "distinct (map job_key (store @ a))"
    by (auto simp: split)
  with len la have p1: "insert_all store a = store @ a" "eviction_count store a = 0"
    using insert_all_no_eviction [of store a] by simp_all
  from dist have fresh: "job_key j \<notin> set (map job_key (store @ a))"
    by (auto simp: split)
  with len la have p2: "insert_if_novel (store @ a) j = drop 100 (store @ a @ [j])"
    "evicted (store @ a) j"
    using insert_at_high_water [of j "store @ a"] by simp_all
  have "distinct (map job_key ((store @ a @ [j]) @ b))"
    using dist by (auto simp: split)
  then have "distinct (map job_key (drop 100 ((store @ a @ [j]) @ b)))"
    by (rule distinct_keys_drop)
  with len la have d3: "distinct (map job_key (drop 100 (store @ a @ [j]) @ b))"
    by simp
  with len la lb have p3:
    "insert_all (drop 100 (store @ a @ [j])) b = drop 100 (store @ a @ [j]) @ b"
    "eviction_count (drop 100 (store @ a @ [j])) b = 0"
    using insert_all_no_eviction [of "drop 100 (store @ a @ [j])" b] by simp_all
  show "insert_all store jobs = drop 100 (store @ jobs)"
    using p1 p2 p3 len la by (simp add: split insert_all_append)
  show "eviction_count store jobs = 1"
    using p1 p2 p3 len la by (simp add: split eviction_count_append)
qed

lemma distinct_prefix:
  "distinct (map job_key (store @ jobs)) \<Longrightarrow> distinct (map job_key (store @ take i jobs))"
  by (metis append_take_drop_id distinct_append map_append append.assoc)

lemma next_key_is_new:
  assumes "distinct (map job_key (store @ jobs))" and "i < length jobs"
  shows "job_key (jobs ! i) \<notin> set (map job_key (store @ take i jobs))"
proof -
  from assms(2) have "jobs = take i jobs @ jobs ! i # drop (Suc i) jobs"
    by (rule id_take_nth_drop)
  then have "store @ jobs = (store @ take i jobs) @ jobs ! i # drop (Suc i) jobs"
    by simp
  with assms(1)
  have "distinct (map job_key ((store @ take i jobs) @ jobs ! i # drop (Suc i) jobs))"
    by (simp only:)
  then show ?thesis by auto
qed

text \<open>Of the 150 calls, the one that executes the erase is call number 100, counted
  from 0: the 101st.\<close>

lemma evicted_only_at_101st:
  assumes len: "length store = 900" "length jobs = 150"
    and dist: "distinct (map job_key (store @ jobs))"
    and i: "i < 150"
  shows "evicted (insert_all store (take i jobs)) (jobs ! i) \<longleftrightarrow> i = 100"
proof (cases "i \<le> 100")
  case True
  from dist have "distinct (map job_key (store @ take i jobs))" by (rule distinct_prefix)
  with len True have st: "insert_all store (take i jobs) = store @ take i jobs"
    using insert_all_no_eviction [of store "take i jobs"] by simp
  from i len have "i < length jobs" by simp
  with dist have "job_key (jobs ! i) \<notin> set (map job_key (store @ take i jobs))"
    by (rule next_key_is_new)
  then have "\<not> job_exists (store @ take i jobs) (jobs ! i)"
    by (simp only: job_exists_iff_key simp_thms)
  with st len i True show ?thesis
    by (simp add: evicted_eq)
next
  case False
  from dist have "distinct (map job_key (store @ take i jobs))" by (rule distinct_prefix)
  with len False i have "insert_all store (take i jobs) = drop 100 (store @ take i jobs)"
    using insert_all_past_high_water(1) [of store "take i jobs"] by simp
  with len False i show ?thesis
    by (simp add: evicted_eq)
qed

lemma upt_900_1050: "[0..<900] @ [900..<1050] = [0..<1050]"
  using upt_add_eq_append [of 0 900 150] by simp

text \<open>
  C3. A vector of 900 records receives 150 further calls, the 1050 keys being pairwise
  distinct. Afterwards the vector is the 1050 records in insertion order without the first
  100: the last 800 of the old records followed by the 150 new ones, 950 in all. The
  erase ran in exactly one of the 150 calls, and that call is the one that finds 1000
  records in the vector and pushes the 1001st: after the first 100 calls the vector holds
  1000 records, and call number \<open>i\<close> (from 0) executes the erase exactly when \<open>i = 100\<close>.
\<close>

theorem C3_evicts_oldest_100_once:
  assumes "length store = 900" and "length jobs = 150"
    and "distinct (map job_key (store @ jobs))"
  shows "insert_all store jobs = drop 100 (store @ jobs)
    \<and> insert_all store jobs = drop 100 store @ jobs
    \<and> length (insert_all store jobs) = 950
    \<and> eviction_count store jobs = 1
    \<and> length (insert_all store (take 100 jobs)) = 1000
    \<and> (i < 150 \<longrightarrow> evicted (insert_all store (take i jobs)) (jobs ! i) = (i = 100))"
proof -
  from assms(3) have "distinct (map job_key (store @ take 100 jobs))" by (rule distinct_prefix)
  with assms(1,2) have "insert_all store (take 100 jobs) = store @ take 100 jobs"
    using insert_all_no_eviction [of store "take 100 jobs"] by simp
  with assms(1,2) have "length (insert_all store (take 100 jobs)) = 1000" by simp
  moreover have "i < 150 \<longrightarrow> evicted (insert_all store (take i jobs)) (jobs ! i) = (i = 100)"
    using evicted_only_at_101st [OF assms] by simp
  ultimately show ?thesis
    using insert_all_past_high_water [OF assms(1) _ _ assms(3)] assms(1,2) by simp
qed

theorem C3_evicts_oldest_100_once_witness:
  "length (map (job_of ''HP'') [0..<900]) = 900
   \<and> length (map (job_of ''HP'') [900..<1050]) = 150
   \<and> distinct (map job_key (map (job_of ''HP'') [0..<900] @ map (job_of ''HP'') [900..<1050]))
   \<and> insert_all (map (job_of ''HP'') [0..<900]) (map (job_of ''HP'') [900..<1050])
       = map (job_of ''HP'') [100..<1050]
   \<and> eviction_count (map (job_of ''HP'') [0..<900]) (map (job_of ''HP'') [900..<1050]) = 1
   \<and> length (insert_all (map (job_of ''HP'') [0..<900])
        (take 100 (map (job_of ''HP'') [900..<1050]))) = 1000
   \<and> evicted (insert_all (map (job_of ''HP'') [0..<900])
        (take 100 (map (job_of ''HP'') [900..<1050]))) (map (job_of ''HP'') [900..<1050] ! 100)
   \<and> \<not> evicted (insert_all (map (job_of ''HP'') [0..<900])
        (take 99 (map (job_of ''HP'') [900..<1050]))) (map (job_of ''HP'') [900..<1050] ! 99)
   \<and> \<not> evicted (insert_all (map (job_of ''HP'') [0..<900])
        (take 101 (map (job_of ''HP'') [900..<1050]))) (map (job_of ''HP'') [900..<1050] ! 101)"
proof -
  let ?old = "map (job_of ''HP'') [0..<900]"
  let ?new = "map (job_of ''HP'') [900..<1050]"
  have l1: "length ?old = 900" and l2: "length ?new = 150" by simp_all
  have all: "?old @ ?new = map (job_of ''HP'') [0..<1050]"
    by (simp only: map_append [symmetric] upt_900_1050)
  have d: "distinct (map job_key (?old @ ?new))"
    unfolding all by (rule distinct_keys_job_of) simp
  have dr: "drop 100 (?old @ ?new) = map (job_of ''HP'') [100..<1050]"
    unfolding all by (simp add: drop_map)
  have n: "(100::nat) < 150" "(99::nat) < 150" "(101::nat) < 150"
    "((100::nat) = 100) = True" "((99::nat) = 100) = False" "((101::nat) = 100) = False"
    by simp_all
  note C = C3_evicts_oldest_100_once [OF l1 l2 d]
  from C [of 100] C [of 99] C [of 101] l1 l2 d dr n show ?thesis
    by (simp only: simp_thms)
qed

section \<open>Properties of the normalisation\<close>

lemma map_job_status_first_match:
  "map_job_status F st = status_text (spec_first_match st (spec_status_precedence F))"
  by (simp add: map_job_status_def spec_status_precedence_def)

text \<open>
  C4. For every bitmask the cascade of the poll loop assigns the one status that the
  first match in the order Paused, Error, Deleting, Spooling, Printing, Offline, PaperOut,
  Deleted, Blocked, UserInterventionRequired gives, and Queued when no flag matches. A
  bitmask with the Paused and the Printing bits maps to Paused; a bitmask with none of
  the ten flags maps to Queued.
\<close>

theorem C4_status_by_first_match:
  "map_job_status F st = status_text (spec_first_match st (spec_status_precedence F))
   \<and> (st AND JOB_STATUS_PAUSED F \<noteq> 0 \<and> st AND JOB_STATUS_PRINTING F \<noteq> 0
        \<longrightarrow> map_job_status F st = status_text Paused)
   \<and> (list_all (\<lambda>(flag, s). st AND flag = 0) (spec_status_precedence F)
        \<longrightarrow> map_job_status F st = status_text Queued)"
  by (simp add: map_job_status_def spec_status_precedence_def)

theorem C4_status_by_first_match_witness:
  "(0x11 :: DWORD) AND JOB_STATUS_PAUSED sdk_job_status_flags \<noteq> 0
   \<and> (0x11 :: DWORD) AND JOB_STATUS_PRINTING sdk_job_status_flags \<noteq> 0
   \<and> map_job_status sdk_job_status_flags 0x11 = ''Paused''
   \<and> list_all (\<lambda>(flag, s). (0x80 :: DWORD) AND flag = 0)
         (spec_status_precedence sdk_job_status_flags)
   \<and> map_job_status sdk_job_status_flags 0x80 = ''Queued''
   \<and> map_job_status sdk_job_status_flags 0x30 = ''Printing''"
  using C4_status_by_first_match [of sdk_job_status_flags "0x11"]
    C4_status_by_first_match [of sdk_job_status_flags "0x80"]
    C4_status_by_first_match [of sdk_job_status_flags "0x30"]
  by (simp add: sdk_job_status_flags_def spec_status_precedence_def)

text \<open>
  C5. The three decoders return Unknown for a null pointer; each returns Unknown when its
  own field flag is not set in \<open>dmFields\<close>, whatever the value of the field; and
  \<open>getPaperSize\<close> returns Custom when the paper-size flag is set and the code is none of
  the five recognised ones.
\<close>

theorem C5_decoder_unknown_and_custom:
  "getColorMode K None = ''Unknown'' \<and> getDuplexSetting K None = ''Unknown''
   \<and> getPaperSize K None = ''Unknown''
   \<and> (dmFields dm AND DM_COLOR K = 0 \<longrightarrow> getColorMode K (Some dm) = ''Unknown'')
   \<and> (dmFields dm AND DM_DUPLEX K = 0 \<longrightarrow> getDuplexSetting K (Some dm) = ''Unknown'')
   \<and> (dmFields dm AND DM_PAPERSIZE K = 0 \<longrightarrow> getPaperSize K (Some dm) = ''Unknown'')
   \<and> (dmFields dm AND DM_PAPERSIZE K \<noteq> 0
        \<and> dmPaperSize dm \<notin> {DMPAPER_LETTER K, DMPAPER_LEGAL K, DMPAPER_A4 K,
                               DMPAPER_A3 K, DMPAPER_A5 K}
        \<longrightarrow> getPaperSize K (Some dm) = ''Custom'')"
  by (simp add: getColorMode_def getDuplexSetting_def getPaperSize_def)

theorem C5_decoder_unknown_and_custom_witness:
  "getColorMode sdk_devmode_codes
      (Some \<lparr>dmFields = 0x2, dmColor = 2, dmDuplex = 2, dmPaperSize = 70\<rparr>) = ''Unknown''
   \<and> getDuplexSetting sdk_devmode_codes
      (Some \<lparr>dmFields = 0x2, dmColor = 2, dmDuplex = 2, dmPaperSize = 70\<rparr>) = ''Unknown''
   \<and> getPaperSize sdk_devmode_codes
      (Some \<lparr>dmFields = 0x2, dmColor = 2, dmDuplex = 2, dmPaperSize = 70\<rparr>) = ''Custom''
   \<and> getPaperSize sdk_devmode_codes
      (Some \<lparr>dmFields = 0x1800, dmColor = 2, dmDuplex = 2, dmPaperSize = 9\<rparr>) = ''Unknown''"
  using C5_decoder_unknown_and_custom
      [of sdk_devmode_codes "\<lparr>dmFields = 0x2, dmColor = 2, dmDuplex = 2, dmPaperSize = 70\<rparr>"]
    C5_decoder_unknown_and_custom
      [of sdk_devmode_codes "\<lparr>dmFields = 0x1800, dmColor = 2, dmDuplex = 2, dmPaperSize = 9\<rparr>"]
  by (simp add: sdk_devmode_codes_def)


lemma sint_small:
  fixes w :: "32 word"
  assumes "unat w < 2 ^ 31"
  shows "sint w = int (unat w)"
proof -
  from assms have "nat (uint w) < 2147483648" by simp
  then have "uint w < 2147483648" by linarith
  then have "uint w < 2 ^ 31" by simp
  moreover have "- (2 ^ 31) \<le> uint w"
    by (rule order_trans [of _ 0]) simp_all
  ultimately have "signed_take_bit 31 (uint w) = uint w"
    by (rule signed_take_bit_int_eq_self [rotated])
  then show ?thesis by (simp add: sint_uint)
qed

lemma pages_make_job:
  "pages (make_job F K p ts info) =
     (if TotalPages info > 0 then TotalPages info else PagesPrinted info)"
  by (simp add: make_job_def Let_def default_PrintJob_def split: option.splits)

lemma documentSize_make_job: "documentSize (make_job F K p ts info) = Size info"
  by (simp add: make_job_def Let_def default_PrintJob_def split: option.splits)

text \<open>Below 2^31 the two fields read as the spooler's values.\<close>

lemma pages_and_size_below_2_31:
  "(0 < unat (TotalPages info) \<and> unat (TotalPages info) < 2 ^ 31 \<longrightarrow>
      sint (pages (make_job F K p ts info)) = int (unat (TotalPages info)))
   \<and> (unat (TotalPages info) = 0 \<and> unat (PagesPrinted info) < 2 ^ 31 \<longrightarrow>
      sint (pages (make_job F K p ts info)) = int (unat (PagesPrinted info)))
   \<and> (unat (Size info) < 2 ^ 31 \<longrightarrow>
      sint (documentSize (make_job F K p ts info)) = int (unat (Size info)))"
  by (simp add: pages_make_job documentSize_make_job sint_small word_greater_zero_iff
      unat_gt_0 unat_0_iff)

text \<open>
  C9. The claim is that page count and document size are non-negative: the total pages
  when positive, else the pages printed so far, and the spooler's byte size. The program
  stores these unsigned 32-bit values into \<open>int\<close> fields, so a value of 2^31 or more
  reads as a negative number. A job of 2 GiB has the document size -2147483648; a total
  page count of 0xFFFFFFFF gives the page count -1; and a total page count of 0x80000000,
  which the unsigned test \<open>TotalPages > 0\<close> accepts, gives -2147483648 and not the one
  page printed so far.
\<close>

theorem C9_large_spooler_values_read_negative:
  "sint (documentSize (make_job sdk_job_status_flags sdk_devmode_codes (Some ''HP'') ''t''
      (example_info\<lparr>Size := 0x80000000\<rparr>))) = - 2147483648
   \<and> sint (pages (make_job sdk_job_status_flags sdk_devmode_codes (Some ''HP'') ''t''
      (example_info\<lparr>TotalPages := 0xFFFFFFFF\<rparr>))) = - 1
   \<and> sint (pages (make_job sdk_job_status_flags sdk_devmode_codes (Some ''HP'') ''t''
      (example_info\<lparr>TotalPages := 0x80000000\<rparr>))) = - 2147483648"
  by (simp add: pages_make_job documentSize_make_job example_info_def)

text \<open>
  C10. When the enumerated job has a null \<open>pDevMode\<close>, the record's colour mode, duplex
  setting and paper size are the empty string of the default-constructed record, although
  each decoder would return Unknown for the null pointer: the decoders are not called.
\<close>

theorem C10_null_devmode_leaves_fields_empty:
  "pDevMode info = None \<Longrightarrow>
     colorMode (make_job F K p ts info) = []
     \<and> duplexSetting (make_job F K p ts info) = []
     \<and> paperSize (make_job F K p ts info) = []
     \<and> getColorMode K (pDevMode info) = ''Unknown''
     \<and> getDuplexSetting K (pDevMode info) = ''Unknown''
     \<and> getPaperSize K (pDevMode info) = ''Unknown''"
  by (simp add: make_job_def Let_def default_PrintJob_def getColorMode_def
      getDuplexSetting_def getPaperSize_def)

theorem C10_null_devmode_leaves_fields_empty_witness:
  "pDevMode example_info = None
   \<and> colorMode (make_job sdk_job_status_flags sdk_devmode_codes (Some ''HP'') ''t''
        example_info) = []
   \<and> duplexSetting (make_job sdk_job_status_flags sdk_devmode_codes (Some ''HP'') ''t''
        example_info) = []
   \<and> paperSize (make_job sdk_job_status_flags sdk_devmode_codes (Some ''HP'') ''t''
        example_info) = []"
proof -
  have h: "pDevMode example_info = None" by (simp add: example_info_def)
  from C10_null_devmode_leaves_fields_empty [OF h] h show ?thesis by simp
qed

section \<open>Properties of the job loop's logging\<close>

lemma to_string_digit: "n < 10 \<Longrightarrow> to_string n = [digit_char n]"
  by (subst to_string.simps) simp

lemma digit_char_7: "digit_char 7 = CHR ''7''"
  by code_simp

lemma make_job_example:
  "make_job sdk_job_status_flags sdk_devmode_codes (Some ''HP'') ts example_info =
     \<lparr>printerName = ''HP'', timestamp = ts, status = ''Printing'', pages = 3,
      documentSize = 2048, colorMode = [], duplexSetting = [], paperSize = [],
      userAccount = ''alice'', jobId = ''7''\<rparr>"
  by (simp add: make_job_def example_info_def default_PrintJob_def map_job_status_def
      sdk_job_status_flags_def ansiStringToUtf8_def to_string_digit digit_char_7)

lemma first_pass:
  "poll_printer_jobs sdk_job_status_flags sdk_devmode_codes (Some ''HP'')
      [sighting ''2024-05-01T09:00:00.000+00:00''] []
   = ([make_job sdk_job_status_flags sdk_devmode_codes (Some ''HP'')
         ''2024-05-01T09:00:00.000+00:00'' example_info],
      [Lock_jobsMutex, Unlock_jobsMutex,
       LogMessage ''INFO'' ''Detected print job: 7 on HP - Status: Printing''])"
  by (simp add: sighting_def process_job_def insert_if_novel_eq make_job_example
      detected_message_def)

text \<open>
  C6, as stated, fails. Job 7 of printer HP is seen in a first pass over the empty store
  and again, unchanged, in a pass ten seconds later, monitoring being active throughout.
  In the second pass the record is not inserted and the store stays as it was, and the
  entry "Detected print job: 7 on HP - Status: Printing" is logged at INFO level again.
\<close>

theorem C6_seen_job_is_logged_again:
  "\<not> inserted
       (fst (poll_printer_jobs sdk_job_status_flags sdk_devmode_codes (Some ''HP'')
              [sighting ''2024-05-01T09:00:00.000+00:00''] []))
       (make_job sdk_job_status_flags sdk_devmode_codes (Some ''HP'')
          ''2024-05-01T09:00:10.000+00:00'' example_info)
   \<and> poll_printer_jobs sdk_job_status_flags sdk_devmode_codes (Some ''HP'')
       [sighting ''2024-05-01T09:00:10.000+00:00'']
       (fst (poll_printer_jobs sdk_job_status_flags sdk_devmode_codes (Some ''HP'')
              [sighting ''2024-05-01T09:00:00.000+00:00''] []))
     = (fst (poll_printer_jobs sdk_job_status_flags sdk_devmode_codes (Some ''HP'')
              [sighting ''2024-05-01T09:00:00.000+00:00''] []),
        [Lock_jobsMutex, Unlock_jobsMutex,
         LogMessage ''INFO'' ''Detected print job: 7 on HP - Status: Printing''])"
  by (simp add: first_pass inserted_eq sighting_def process_job_def insert_if_novel_eq
      make_job_example detected_message_def)

text \<open>
  C6, amended. For every enumerated job that the loop processes, one INFO entry is logged
  when \<open>monitoringActive\<close> is still true at the read before the log call, and none
  otherwise; this does not depend on whether the record was inserted. The store after the
  job is what the guarded block makes of it.
\<close>

theorem C6_logged_whenever_active:
  "log_entries (snd (process_job True job store)) = [(''INFO'', detected_message job)]
   \<and> log_entries (snd (process_job False job store)) = []
   \<and> fst (process_job active job store) = insert_if_novel store job"
  by (simp add: process_job_def)

section \<open>Properties of the lock\<close>










section \<open>Properties of the periodic save\<close>

text \<open>Thirty minutes of an active flag take the inner loop through all its 1800 sleeps.\<close>

lemma periodicSave_sleep_full:
  "(\<forall>k < 1800 - i. active (t + k)) \<Longrightarrow> periodicSave_sleep active i t = t + (1800 - i)"
proof (induction active i t rule: periodicSave_sleep.induct)
  case (1 active i t)
  show ?case
  proof (cases "i < 1800")
    case True
    with "1.prems" have a: "active t" by (metis add.right_neutral zero_less_diff)
    have "\<forall>k<1800 - Suc i. active (Suc t + k)"
    proof (intro allI impI)
      fix k assume "k < 1800 - Suc i"
      then have "Suc k < 1800 - i" by simp
      with "1.prems" have "active (t + Suc k)" by blast
      then show "active (Suc t + k)" by simp
    qed
    with "1.IH" True a
    have "periodicSave_sleep active (Suc i) (Suc t) = Suc t + (1800 - Suc i)"
      by simp
    with True a show ?thesis by (subst periodicSave_sleep.simps) simp
  next
    case False
    then show ?thesis by (subst periodicSave_sleep.simps) simp
  qed
qed

text \<open>A thread of \<open>periodicSave\<close> that finds the flag set, and set for the next 1800
  ticks, exports at the end of them and goes on.\<close>

lemma periodicSave_exports_when_active:
  assumes "t < horizon" and "\<forall>k \<le> 1800. active (t + k)"
  shows "periodicSave active clock horizon t =
      (t + 1800, auto_save_filename (clock (t + 1800)))
        # periodicSave active clock horizon (t + 1800)"
proof -
  from assms(2) have "periodicSave_sleep active 0 t = t + 1800"
    using periodicSave_sleep_full [of 0 active t] by simp
  moreover from assms(2) have "active t" "active (t + 1800)"
    by (metis add.right_neutral le0, simp)
  ultimately show ?thesis
    using assms(1) by (subst periodicSave.simps) (simp add: Let_def)
qed

lemma auto_save_filename_example:
  "auto_save_filename ''2024-05-01T09:30:00.123+00:00''
     = ''print_jobs_auto_save_2024-05-01T09-30-00.csv''"
  by (simp add: auto_save_filename_def)

text \<open>The thread that \<open>main\<close> starts reads the flag before any command has set it, and
  returns.\<close>

lemma monitoringActive_after_start:
  "6 \<le> t \<Longrightarrow> monitoringActive_at command_first [(5, Start)] t"
  by (simp add: monitoringActive_at_def)

text \<open>When no command is waiting at launch, or when the thread reads the flag before the
  waiting command is handled, the thread that \<open>main\<close> starts finds the flag clear and
  returns.\<close>

lemma no_command_at_launch:
  assumes "list_all (\<lambda>(typed_at, c). 0 < typed_at) cmds"
  shows "main_periodic_exports command_first cmds clock horizon = []"
proof -
  from assms
  have "filter (\<lambda>(typed_at, c). typed_at < 0 \<or> (typed_at = 0 \<and> command_first 0)) cmds = []"
    by (induction cmds) auto
  then show ?thesis
    by (simp add: main_periodic_exports_def monitoringActive_at_def periodicSave.simps)
qed

lemma thread_reads_first:
  "\<not> command_first 0 \<Longrightarrow> main_periodic_exports command_first cmds clock horizon = []"
  by (simp add: main_periodic_exports_def monitoringActive_at_def periodicSave.simps)

text \<open>When \<open>start\<close> is waiting at launch and is handled before the thread's first read,
  the thread stays and exports after 1800 ticks.\<close>

lemma start_waiting_at_launch:
  assumes "command_first 0" and "0 < horizon"
  shows "main_periodic_exports command_first [(0, Start)] clock horizon =
     (1800, auto_save_filename (clock 1800))
       # periodicSave (monitoringActive_at command_first [(0, Start)]) clock horizon 1800"
proof -
  have "\<forall>k \<le> 1800. monitoringActive_at command_first [(0, Start)] (0 + k)"
    using assms(1) by (auto simp: monitoringActive_at_def)
  with assms(2) show ?thesis
    unfolding main_periodic_exports_def
    using periodicSave_exports_when_active
      [of 0 horizon "monitoringActive_at command_first [(0, Start)]" clock]
    by simp
qed

text \<open>
  C8. The claim is that every period of at least about 30 minutes in the Running state
  has an automatic export. In the program, \<open>start\<close> is typed five seconds after launch
  and monitoring stays active: however the command and the thread's reads are ordered
  within a tick, the flag is clear at tick 0, set at tick 6 and still set at ticks 1806
  and 7200, two hours after launch, and the thread of \<open>periodicSave\<close> that \<open>main\<close>
  started has made no export in that time, because it had already returned.
\<close>

theorem C8_no_periodic_export_after_start:
  "\<not> monitoringActive_at command_first [(5, Start)] 0
   \<and> monitoringActive_at command_first [(5, Start)] 6
   \<and> monitoringActive_at command_first [(5, Start)] 1806
   \<and> monitoringActive_at command_first [(5, Start)] 7200
   \<and> main_periodic_exports command_first [(5, Start)] clock 7200 = []"
  by (simp add: main_periodic_exports_def monitoringActive_at_def periodicSave.simps)

end
